theory Spec2Isabelle
  imports Main
begin

section \<open>The ClickHouse node (src/nodes/ClickHouse/ClickHouse.node.ts)\<close>

text \<open>
  The node has two entry points: \<open>execute\<close> (operations \<open>query\<close> and \<open>insert\<close>) and the
  credential test \<open>clickhouseConnectionTest\<close>. Both talk to the database through the
  vendor client, whose calls are asynchronous and may reject. The embedding makes every
  such call explicit: the client is a record of outcomes, each call is appended to a log
  of client events, and a rejected promise or a thrown error is the \<open>Inl\<close> branch of a sum.

  \<open>execute\<close> is modelled from its \<open>try\<close> block on (lines 194 to 250), for a client that
  \<open>createClient\<close> has returned and an operation selector that has been read (lines 178 to
  189). Left out are the two \<open>console.log\<close> calls, \<open>this.getNode()\<close>, and the
  \<open>query_params\<close> argument, which is always the empty object.
\<close>

subsection \<open>JavaScript strings and the string operations the code uses\<close>

text \<open>
  A JavaScript string is a sequence of UTF-16 code units; a code unit is modelled as a
  natural number. \<open>str\<close> turns a literal of ASCII characters into its code units. The
  query text, which the code trims, upper-cases and searches, is such a sequence. The
  strings that the code only hands on or compares with a literal (the operation selector,
  the table name, the format, the messages, the credentials) stay of type \<open>string\<close>.
\<close>

type_synonym code_unit = nat

type_synonym jsstring = "code_unit list"

definition str :: "string \<Rightarrow> jsstring" where
  "str s = map of_char s"

text \<open>
  What the code takes from the JavaScript engine and not from the repository: the Unicode
  table of upper-case mappings, and the rendering of numbers outside the range in which
  every integer is a Number. Both are parameters of the model. \<open>uppercaseMapping\<close> gives,
  for a code point from 128 on, the code points of its upper-case form (one or several);
  \<open>largeNumberToString\<close> gives the text of a number from \<open>2^53\<close> on.
\<close>

record runtime =
  uppercaseMapping :: "nat \<Rightarrow> nat list"
  largeNumberToString :: "nat \<Rightarrow> jsstring"

text \<open>
  \<open>String.prototype.trim\<close> removes white space and line terminators at both ends: TAB, LF,
  VT, FF, CR, SPACE, NO-BREAK SPACE (160), U+1680, U+2000 to U+200A, U+2028, U+2029, U+202F,
  U+205F, U+3000 and U+FEFF. All of them are single code units.
\<close>

definition isWhiteSpace :: "code_unit \<Rightarrow> bool" where
  "isWhiteSpace u =
     ((9 \<le> u \<and> u \<le> 13) \<or> u = 32 \<or> u = 160 \<or> u = 5760 \<or>
      (8192 \<le> u \<and> u \<le> 8202) \<or> u = 8232 \<or> u = 8233 \<or> u = 8239 \<or>
      u = 8287 \<or> u = 12288 \<or> u = 65279)"

definition trim :: "jsstring \<Rightarrow> jsstring" where
  "trim s = rev (dropWhile isWhiteSpace (rev (dropWhile isWhiteSpace s)))"

text \<open>
  \<open>String.prototype.toUpperCase\<close> reads the code units as code points (a lead surrogate
  followed by a trail surrogate is one code point, any other code unit is a code point of
  its own), maps every code point to its upper-case form, and writes the code points back
  as code units. For the ASCII code points the mapping is fixed: a to z become A to Z and
  the others stay; from 128 on it is the table of the engine.
\<close>

fun codePoints :: "jsstring \<Rightarrow> nat list" where
  "codePoints (h # l # r) =
     (if 55296 \<le> h \<and> h \<le> 56319 \<and> 56320 \<le> l \<and> l \<le> 57343
      then (65536 + (h - 55296) * 1024 + (l - 56320)) # codePoints r
      else h # codePoints (l # r))"
| "codePoints [h] = [h]"
| "codePoints [] = []"

definition codeUnits :: "nat \<Rightarrow> jsstring" where
  "codeUnits cp =
     (if cp < 65536 then [cp]
      else [55296 + (cp - 65536) div 1024, 56320 + (cp - 65536) mod 1024])"

definition upperCodePoint :: "runtime \<Rightarrow> nat \<Rightarrow> nat list" where
  "upperCodePoint rt cp =
     (if 97 \<le> cp \<and> cp \<le> 122 then [cp - 32]
      else if cp < 128 then [cp]
      else uppercaseMapping rt cp)"

definition toUpperCase :: "runtime \<Rightarrow> jsstring \<Rightarrow> jsstring" where
  "toUpperCase rt s = concat (map codeUnits (concat (map (upperCodePoint rt) (codePoints s))))"

fun startsWith :: "jsstring \<Rightarrow> jsstring \<Rightarrow> bool" where
  "startsWith s [] = True"
| "startsWith [] (p # ps) = False"
| "startsWith (c # s) (p # ps) = (c = p \<and> startsWith s ps)"

fun includes_str :: "jsstring \<Rightarrow> jsstring \<Rightarrow> bool" where
  "includes_str [] p = (p = [])"
| "includes_str (c # s) p = (startsWith (c # s) p \<or> includes_str s p)"

text \<open>
  The template literal renders the number \<open>maxResults\<close>. Below \<open>2^53\<close> every integer is a
  Number of its own and JavaScript prints its decimal digits, with a minus sign when
  negative; from \<open>2^53\<close> on the engine prints the shortest digits that read back as the same
  Number, and an exponent from \<open>10^21\<close> on.
\<close>

definition digitUnit :: "nat \<Rightarrow> code_unit" where
  "digitUnit d = 48 + d"

function decimal :: "nat \<Rightarrow> jsstring" where
  "decimal n = (if n < 10 then [digitUnit n] else decimal (n div 10) @ [digitUnit (n mod 10)])"
  by pat_completeness auto
termination
  by (relation "measure (\<lambda>n. n)") auto

declare decimal.simps [simp del]

definition naturalToString :: "runtime \<Rightarrow> nat \<Rightarrow> jsstring" where
  "naturalToString rt m =
     (if m < 9007199254740992 then decimal m else largeNumberToString rt m)"

definition numberToString :: "runtime \<Rightarrow> int \<Rightarrow> jsstring" where
  "numberToString rt n =
     (if n < 0 then 45 # naturalToString rt (nat (- n)) else naturalToString rt (nat n))"

subsection \<open>Errors, items, client events\<close>

text \<open>
  \<open>js_error\<close> is an error object thrown by the host context or by the client library;
  what is thrown is taken to be an object with a \<open>message\<close> string, which may be empty.
  \<open>failure\<close> is what leaves \<open>execute\<close>: the \<open>NodeOperationError\<close> the node itself
  raises (line 208), or an error of the environment that is thrown on unchanged.
\<close>

datatype js_error = JsError (error_message: string)

datatype failure = NodeOperationError string | Rethrown js_error

record 'j INodeExecutionData =
  json :: 'j

text \<open>The calls made on the client, in order: query text and format; table, format and rows.\<close>

datatype 'j event =
    ClientQuery jsstring string
  | ClientInsert string string "'j list"
  | ClientClose

definition isClose :: "'j event \<Rightarrow> bool" where
  "isClose ev = (case ev of ClientClose \<Rightarrow> True | _ \<Rightarrow> False)"

definition isRequest :: "'j event \<Rightarrow> bool" where
  "isRequest ev = (case ev of ClientClose \<Rightarrow> False | _ \<Rightarrow> True)"

text \<open>
  The client returned by \<open>createClient\<close>: \<open>query_result\<close> is the outcome of
  \<open>client.query\<close> on a query text, \<open>json_result\<close> of \<open>result.json()\<close>,
  \<open>insert_result\<close> of \<open>client.insert\<close> on a table and its rows, \<open>close_result\<close> of
  \<open>client.close()\<close> after the calls made so far. \<open>None\<close> is a call without a value that
  succeeded.
\<close>

record ('j, 'rs) client =
  query_result :: "jsstring \<Rightarrow> js_error + 'rs"
  json_result :: "'rs \<Rightarrow> js_error + 'j list"
  insert_result :: "string \<Rightarrow> 'j list \<Rightarrow> js_error option"
  close_result :: "'j event list \<Rightarrow> js_error option"

text \<open>The options collection: a field that was not set is \<open>None\<close> (undefined).\<close>

record options =
  readOnlyMode :: "bool option"
  maxResults :: "int option"

text \<open>
  The environment of one invocation: the host context \<open>this\<close> (IExecuteFunctions) with the
  node parameters read with \<open>getNodeParameter\<close>, the input items and
  \<open>prepareOutputData\<close>, and the JavaScript engine the node runs on. The reads made inside the
  \<open>try\<close> block may throw.
\<close>

record ('j, 'r) host =
  param_operation :: string
  param_query :: "js_error + jsstring"
  param_options :: "js_error + options"
  param_table :: "js_error + string"
  getInputData :: "js_error + 'j INodeExecutionData list"
  prepareOutputData :: "'j INodeExecutionData list \<Rightarrow> 'r"
  engine :: runtime

subsection \<open>execute\<close>

definition JSONEachRow :: string where
  "JSONEachRow = ''JSONEachRow''"

definition readOnlyMessage :: string where
  "readOnlyMessage = ''Only SELECT, SHOW, and DESCRIBE queries are allowed in read-only mode''"

text \<open>Lines 203 to 207: the condition under which read-only mode lets a query through.\<close>

definition readOnlyAllowed :: "runtime \<Rightarrow> jsstring \<Rightarrow> bool" where
  "readOnlyAllowed rt query =
     (let normalizedQuery = toUpperCase rt (trim query) in
      \<not> (\<not> startsWith normalizedQuery (str ''SELECT'') \<and>
         \<not> startsWith normalizedQuery (str ''SHOW'') \<and>
         \<not> startsWith normalizedQuery (str ''DESCRIBE'') \<and>
         \<not> startsWith normalizedQuery (str ''DESC'')))"

text \<open>Lines 215 to 218: add LIMIT if not present and maxResults is set.\<close>

definition addLimit :: "runtime \<Rightarrow> jsstring \<Rightarrow> int \<Rightarrow> jsstring" where
  "addLimit rt query maxRes =
     (if maxRes > 0 \<and> \<not> includes_str (toUpperCase rt query) (str ''LIMIT'')
      then query @ str '' LIMIT '' @ numberToString rt maxRes
      else query)"

text \<open>Lines 196 to 229, the \<open>query\<close> branch of the \<open>try\<close> block.\<close>

definition queryBranch ::
  "('j, 'r) host \<Rightarrow> ('j, 'rs) client \<Rightarrow> 'j event list \<times> (failure + 'j INodeExecutionData list)" where
  "queryBranch h c =
     (case param_query h of
        Inl e \<Rightarrow> ([], Inl (Rethrown e))
      | Inr query \<Rightarrow>
     (case param_options h of
        Inl e \<Rightarrow> ([], Inl (Rethrown e))
      | Inr opts \<Rightarrow>
     (let readOnly = (case readOnlyMode opts of Some b \<Rightarrow> b | None \<Rightarrow> False);
          maxRes = (case maxResults opts of Some n \<Rightarrow> n | None \<Rightarrow> 0)
      in if readOnly \<and> \<not> readOnlyAllowed (engine h) query
         then ([], Inl (NodeOperationError readOnlyMessage))
         else
           (let query' = addLimit (engine h) query maxRes;
                log = [ClientQuery query' JSONEachRow]
            in case query_result c query' of
                 Inl e \<Rightarrow> (log, Inl (Rethrown e))
               | Inr result \<Rightarrow>
                   (case json_result c result of
                      Inl e \<Rightarrow> (log, Inl (Rethrown e))
                    | Inr rows \<Rightarrow> (log, Inr (map (\<lambda>row. \<lparr>json = row\<rparr>) rows)))))))"

text \<open>Lines 231 to 241, the \<open>insert\<close> branch; \<open>returnItems\<close> keeps its initial value \<open>[]\<close>.\<close>

definition insertBranch ::
  "('j, 'r) host \<Rightarrow> ('j, 'rs) client \<Rightarrow> 'j event list \<times> (failure + 'j INodeExecutionData list)" where
  "insertBranch h c =
     (case getInputData h of
        Inl e \<Rightarrow> ([], Inl (Rethrown e))
      | Inr input \<Rightarrow>
     (let items = map json input
      in case param_table h of
           Inl e \<Rightarrow> ([], Inl (Rethrown e))
         | Inr table \<Rightarrow>
             (let log = [ClientInsert table JSONEachRow items]
              in case insert_result c table items of
                   Some e \<Rightarrow> (log, Inl (Rethrown e))
                 | None \<Rightarrow> (log, Inr []))))"

text \<open>
  Lines 194 to 242, the body of the \<open>try\<close> block: the calls made on the client, and either
  the error thrown or the value of \<open>returnItems\<close> at its end.
\<close>

definition dispatch ::
  "('j, 'r) host \<Rightarrow> ('j, 'rs) client \<Rightarrow> 'j event list \<times> (failure + 'j INodeExecutionData list)" where
  "dispatch h c =
     (if param_operation h = ''query'' then queryBranch h c
      else if param_operation h = ''insert'' then insertBranch h c
      else ([], Inr []))"

text \<open>
  Lines 194 to 250, from the \<open>try\<close> on, for the client \<open>c\<close> that \<open>createClient\<close> returned:
  the \<open>catch\<close> closes and rethrows, the normal path closes and returns. A close that
  rejects throws its own error in either place.
\<close>

definition execute ::
  "('j, 'r) host \<Rightarrow> ('j, 'rs) client \<Rightarrow> 'j event list \<times> (failure + 'r)" where
  "execute h c =
     (case dispatch h c of
        (log, Inl error) \<Rightarrow>
          (case close_result c log of
             Some ce \<Rightarrow> (log @ [ClientClose], Inl (Rethrown ce))
           | None \<Rightarrow> (log @ [ClientClose], Inl error))
      | (log, Inr returnItems) \<Rightarrow>
          (case close_result c log of
             Some ce \<Rightarrow> (log @ [ClientClose], Inl (Rethrown ce))
           | None \<Rightarrow> (log @ [ClientClose], Inr (prepareOutputData h returnItems))))"

subsection \<open>The credential test\<close>

text \<open>
  \<open>credential.data\<close> is a dictionary of strings; a key that is absent reads as undefined
  (\<open>None\<close>). \<open>createClient\<close> is the library's constructor, which may throw on a
  configuration it refuses.
\<close>

type_synonym IDataObject = "string \<rightharpoonup> string"

record ClickHouseClientConfigOptions =
  host :: "string option"
  database :: "string option"
  username :: "string option"
  password :: "string option"

record INodeCredentialTestResult =
  status :: string
  message :: string

text \<open>Lines 147 to 152 (and 180 to 185): the client configuration read off the credentials.\<close>

definition clientConfig :: "IDataObject \<Rightarrow> ClickHouseClientConfigOptions" where
  "clientConfig credentials =
     \<lparr>host = credentials ''url'', database = credentials ''database'',
      username = credentials ''user'', password = credentials ''password''\<rparr>"

text \<open>
  Lines 145 to 172. Everything from \<open>createClient\<close> to \<open>client.close()\<close> is inside the
  \<open>try\<close>; the \<open>catch\<close> makes no call on the client.
\<close>

definition clickhouseConnectionTest ::
  "(ClickHouseClientConfigOptions \<Rightarrow> js_error + ('j, 'rs) client) \<Rightarrow> IDataObject
     \<Rightarrow> 'j event list \<times> INodeCredentialTestResult" where
  "clickhouseConnectionTest createClient credentials =
     (let config = clientConfig credentials
      in case createClient config of
           Inl error \<Rightarrow> ([], \<lparr>status = ''Error'', message = error_message error\<rparr>)
         | Inr client \<Rightarrow>
             (let log = [ClientQuery (str ''SELECT 1'') JSONEachRow]
              in case query_result client (str ''SELECT 1'') of
                   Inl error \<Rightarrow> (log, \<lparr>status = ''Error'', message = error_message error\<rparr>)
                 | Inr result \<Rightarrow>
                     (case close_result client log of
                        Some error \<Rightarrow>
                          (log @ [ClientClose],
                           \<lparr>status = ''Error'', message = error_message error\<rparr>)
                      | None \<Rightarrow>
                          (log @ [ClientClose],
                           \<lparr>status = ''OK'', message = ''Connection successful!''\<rparr>))))"

subsection \<open>The specification's wording of the LIMIT test and of the number\<close>

text \<open>
  The specification speaks of a text that contains the substring LIMIT in any letter case:
  at some position of the text stands a piece as long as the pattern that equals the
  pattern when the case of the letters a to z is ignored. The code instead upper-cases the
  whole text with \<open>toUpperCase\<close> and looks for the pattern in it.
\<close>

definition asciiUpper :: "code_unit \<Rightarrow> code_unit" where
  "asciiUpper u = (if 97 \<le> u \<and> u \<le> 122 then u - 32 else u)"

definition equalsIgnoreCase :: "jsstring \<Rightarrow> jsstring \<Rightarrow> bool" where
  "equalsIgnoreCase a b = (map asciiUpper a = map asciiUpper b)"

definition containsIgnoreCase :: "jsstring \<Rightarrow> jsstring \<Rightarrow> bool" where
  "containsIgnoreCase s p =
     list_ex (\<lambda>i. equalsIgnoreCase (take (length p) (drop i s)) p) [0..<Suc (length s)]"

definition isAscii :: "jsstring \<Rightarrow> bool" where
  "isAscii s = list_all (\<lambda>u. u < 128) s"

text \<open>
  The specification appends the number \<open>N\<close>: a text of decimal digits, without a leading
  zero, whose value is \<open>N\<close>. \<open>digitsValue\<close> reads such a text.
\<close>

definition isDigit :: "code_unit \<Rightarrow> bool" where
  "isDigit u = (48 \<le> u \<and> u \<le> 57)"

definition digitsValue :: "jsstring \<Rightarrow> nat" where
  "digitsValue ds = foldl (\<lambda>acc u. 10 * acc + (u - 48)) 0 ds"

subsection \<open>Concrete hosts and clients\<close>

text \<open>
  A small JSON value type, a client whose calls have fixed outcomes, and a host with fixed
  parameters whose \<open>prepareOutputData\<close> wraps the items as the single output of the node.
  \<open>sampleRuntime\<close> holds the entries of the engine's tables that the examples below reach:
  LATIN SMALL LETTER DOTLESS I (305) has the upper-case form I, LATIN SMALL LETTER LONG S
  (383) has the upper-case form S, and \<open>10^21\<close> is printed as \<open>1e+21\<close>. No other entry is
  read.
\<close>

definition sampleRuntime :: runtime where
  "sampleRuntime =
     \<lparr>uppercaseMapping = (\<lambda>cp. if cp = 305 then [73] else if cp = 383 then [83] else [cp]),
      largeNumberToString =
        (\<lambda>m. if m = 1000000000000000000000 then str ''1e+21'' else [])\<rparr>"

datatype json_value = JNumber int | JString string

type_synonym json_object = "(string \<times> json_value) list"

definition stubClient ::
  "(js_error + json_object list) \<Rightarrow> js_error option \<Rightarrow> js_error option
     \<Rightarrow> (json_object, json_object list) client" where
  "stubClient q i cl =
     \<lparr>query_result = (\<lambda>_. q), json_result = (\<lambda>rs. Inr rs),
      insert_result = (\<lambda>_ _. i), close_result = (\<lambda>_. cl)\<rparr>"

definition stubHost ::
  "string \<Rightarrow> jsstring \<Rightarrow> options \<Rightarrow> string \<Rightarrow> json_object INodeExecutionData list
     \<Rightarrow> (json_object, json_object INodeExecutionData list list) host" where
  "stubHost op q opts tbl items =
     \<lparr>param_operation = op, param_query = Inr q, param_options = Inr opts,
      param_table = Inr tbl, getInputData = Inr items,
      prepareOutputData = (\<lambda>xs. [xs]), engine = sampleRuntime\<rparr>"

definition exampleItems :: "json_object INodeExecutionData list" where
  "exampleItems =
     [\<lparr>json = [(''id'', JNumber 1), (''name'', JString ''a'')]\<rparr>,
      \<lparr>json = [(''id'', JNumber 2), (''name'', JString ''b'')]\<rparr>]"

definition exampleRows :: "json_object list" where
  "exampleRows = [[(''id'', JNumber 1)], [(''id'', JNumber 2)]]"

text \<open>A query text that names a column spelt l, dotless i, m, dotless i, t.\<close>

definition dotlessLimitQuery :: jsstring where
  "dotlessLimitQuery = str ''select l'' @ [305] @ str ''m'' @ [305] @ str ''t from t''"

definition exampleCredentials :: IDataObject where
  "exampleCredentials =
     [''url'' \<mapsto> ''http://clickhouse:8123'', ''database'' \<mapsto> ''default'',
      ''user'' \<mapsto> ''default'', ''password'' \<mapsto> ''secret'']"

section \<open>Properties\<close>

subsection \<open>String operations\<close>

lemma startsWith_take: "startsWith s p = (take (length p) s = p)"
  by (induction s p rule: startsWith.induct) auto

lemma includes_str_take:
  "includes_str s p = (\<exists>i\<le>length s. take (length p) (drop i s) = p)"
proof (induction s)
  case Nil
  then show ?case by auto
next
  case (Cons c s)
  have "(\<exists>i\<le>length (c # s). take (length p) (drop i (c # s)) = p) =
        (take (length p) (c # s) = p \<or> (\<exists>i\<le>length s. take (length p) (drop i s) = p))"
    (is "?L = ?R")
  proof
    assume ?L
    then obtain i where i: "i \<le> length (c # s)" "take (length p) (drop i (c # s)) = p"
      by blast
    show ?R
    proof (cases i)
      case 0
      with i show ?thesis by simp
    next
      case (Suc k)
      with i have "k \<le> length s" "take (length p) (drop k s) = p" by simp_all
      then show ?thesis by blast
    qed
  next
    assume ?R
    then show ?L
    proof
      assume "take (length p) (c # s) = p"
      then have "take (length p) (drop 0 (c # s)) = p" by simp
      then show ?L by blast
    next
      assume "\<exists>i\<le>length s. take (length p) (drop i s) = p"
      then obtain k where "k \<le> length s" "take (length p) (drop k s) = p" by blast
      then have "Suc k \<le> length (c # s)" "take (length p) (drop (Suc k) (c # s)) = p"
        by simp_all
      then show ?L by blast
    qed
  qed
  with Cons show ?case by (simp add: startsWith_take del: startsWith.simps)
qed

lemma codePoints_ascii: "isAscii s \<Longrightarrow> codePoints s = s"
  by (induction s rule: codePoints.induct) (auto simp: isAscii_def)

lemma upper_ascii_unit:
  "u < 128 \<Longrightarrow> concat (map codeUnits (upperCodePoint rt u)) = [asciiUpper u]"
  by (auto simp: upperCodePoint_def codeUnits_def asciiUpper_def)

lemma toUpperCase_ascii_aux:
  "list_all (\<lambda>u. u < 128) s \<Longrightarrow>
   concat (map codeUnits (concat (map (upperCodePoint rt) s))) = map asciiUpper s"
proof (induction s)
  case Nil
  then show ?case by simp
next
  case (Cons u s)
  then have "u < 128" and "list_all (\<lambda>u. u < 128) s" by simp_all
  then show ?case using Cons.IH upper_ascii_unit [of u rt] by simp
qed

lemma toUpperCase_ascii: "isAscii s \<Longrightarrow> toUpperCase rt s = map asciiUpper s"
  using toUpperCase_ascii_aux [of s rt] codePoints_ascii [of s]
  by (simp add: toUpperCase_def isAscii_def)

lemma containsIgnoreCase_iff:
  "containsIgnoreCase s p =
     (\<exists>i\<le>length s. map asciiUpper (take (length p) (drop i s)) = map asciiUpper p)"
  by (simp add: containsIgnoreCase_def equalsIgnoreCase_def list_ex_iff Bex_def less_Suc_eq_le
      del: upt_Suc)

lemma includes_asciiUpper:
  "includes_str (map asciiUpper s) (map asciiUpper p) = containsIgnoreCase s p"
  by (simp add: includes_str_take containsIgnoreCase_iff take_map drop_map)

lemma asciiUpper_LIMIT: "map asciiUpper (str ''LIMIT'') = str ''LIMIT''"
  by (simp add: str_def asciiUpper_def)

lemma includes_LIMIT_ascii:
  assumes "isAscii s"
  shows "includes_str (toUpperCase rt s) (str ''LIMIT'') = containsIgnoreCase s (str ''LIMIT'')"
  using includes_asciiUpper [of s "str ''LIMIT''"]
  by (simp only: toUpperCase_ascii [OF assms] asciiUpper_LIMIT)

subsection \<open>What trim leaves\<close>

lemma rev_dropWhile_split:
  "xs = rev (dropWhile P (rev xs)) @ rev (takeWhile P (rev xs))"
proof -
  have "rev (takeWhile P (rev xs) @ dropWhile P (rev xs)) = rev (rev xs)"
    by (simp only: takeWhile_dropWhile_id)
  then show ?thesis by (simp only: rev_append rev_rev_ident)
qed

lemma trim_suffix:
  "dropWhile isWhiteSpace S =
     trim S @ rev (takeWhile isWhiteSpace (rev (dropWhile isWhiteSpace S)))"
  unfolding trim_def by (rule rev_dropWhile_split)

lemma trim_decomposition:
  "\<exists>w1 w2. S = w1 @ trim S @ w2 \<and> list_all isWhiteSpace w1 \<and> list_all isWhiteSpace w2"
proof -
  let ?a = "dropWhile isWhiteSpace S"
  let ?w1 = "takeWhile isWhiteSpace S"
  let ?w2 = "rev (takeWhile isWhiteSpace (rev ?a))"
  have "S = ?w1 @ ?a" by simp
  also have "?a = trim S @ ?w2" by (rule trim_suffix)
  finally have 1: "S = ?w1 @ trim S @ ?w2" .
  have 3: "list_all isWhiteSpace ?w1"
    by (simp add: list_all_iff) (meson set_takeWhileD)
  have 4: "list_all isWhiteSpace ?w2"
    by (simp add: list_all_iff) (meson set_takeWhileD)
  from 1 3 4 show ?thesis by blast
qed

lemma trim_ends:
  assumes "trim S \<noteq> []"
  shows "\<not> isWhiteSpace (hd (trim S)) \<and> \<not> isWhiteSpace (last (trim S))"
proof -
  let ?a = "dropWhile isWhiteSpace S"
  let ?b = "dropWhile isWhiteSpace (rev ?a)"
  have t: "trim S = rev ?b" by (simp add: trim_def)
  with assms have b: "?b \<noteq> []" by simp
  then have hb: "\<not> isWhiteSpace (hd ?b)" by (rule hd_dropWhile)
  from b have l: "last (trim S) = hd ?b" by (simp add: t last_rev)
  have a: "?a \<noteq> []"
  proof
    assume e: "?a = []"
    have "?b = dropWhile isWhiteSpace (rev [])" by (simp only: e)
    then have "?b = []" by simp
    with b show False ..
  qed
  then have ha: "\<not> isWhiteSpace (hd ?a)" by (rule hd_dropWhile)
  have "hd ?a = hd (trim S @ rev (takeWhile isWhiteSpace (rev ?a)))"
    using trim_suffix [of S] by (rule arg_cong)
  with assms have "hd ?a = hd (trim S)" by simp
  with ha hb l show ?thesis by simp
qed

lemma set_trim: "x \<in> set (trim S) \<Longrightarrow> x \<in> set S"
proof -
  assume "x \<in> set (trim S)"
  then have "x \<in> set (dropWhile isWhiteSpace (rev (dropWhile isWhiteSpace S)))"
    by (simp add: trim_def)
  then have "x \<in> set (rev (dropWhile isWhiteSpace S))" by (rule set_dropWhileD)
  then have "x \<in> set (dropWhile isWhiteSpace S)" by simp
  then show "x \<in> set S" by (rule set_dropWhileD)
qed

lemma isAscii_trim: "isAscii S \<Longrightarrow> isAscii (trim S)"
  using set_trim [of _ S] by (auto simp: isAscii_def list_all_iff)

subsection \<open>The decimal digits of a number\<close>

lemma digitsValue_snoc: "digitsValue (ds @ [u]) = 10 * digitsValue ds + (u - 48)"
  by (simp add: digitsValue_def)

lemma decimal_nonempty: "decimal n \<noteq> []"
  by (subst decimal.simps) simp

lemma decimal_digits: "list_all isDigit (decimal n)"
proof (induction n rule: decimal.induct)
  case (1 n)
  show ?case
  proof (cases "n < 10")
    case True
    then show ?thesis by (subst decimal.simps) (simp add: isDigit_def digitUnit_def)
  next
    case False
    with "1" have "list_all isDigit (decimal (n div 10))" by simp
    moreover have "isDigit (digitUnit (n mod 10))" by (simp add: isDigit_def digitUnit_def)
    ultimately show ?thesis using False by (subst decimal.simps) simp
  qed
qed

lemma decimal_value: "digitsValue (decimal n) = n"
proof (induction n rule: decimal.induct)
  case (1 n)
  show ?case
  proof (cases "n < 10")
    case True
    then show ?thesis by (subst decimal.simps) (simp add: digitsValue_def digitUnit_def)
  next
    case False
    with "1" have "digitsValue (decimal (n div 10)) = n div 10" by simp
    then show ?thesis using False
      by (subst decimal.simps) (simp add: digitsValue_snoc digitUnit_def)
  qed
qed

lemma decimal_no_leading_zero: "0 < n \<Longrightarrow> hd (decimal n) \<noteq> 48"
proof (induction n rule: decimal.induct)
  case (1 n)
  show ?case
  proof (cases "n < 10")
    case True
    with "1.prems" show ?thesis by (subst decimal.simps) (simp add: digitUnit_def)
  next
    case False
    then have "0 < n div 10" by simp
    with "1.IH" False have "hd (decimal (n div 10)) \<noteq> 48" by simp
    then show ?thesis using False decimal_nonempty [of "n div 10"]
      by (subst decimal.simps) simp
  qed
qed

lemma numberToString_small:
  assumes "0 < N" and "N < 9007199254740992"
  shows "numberToString rt N = decimal (nat N)"
proof -
  from assms have "nat N < 9007199254740992" by linarith
  with assms(1) show ?thesis by (simp add: numberToString_def naturalToString_def)
qed

lemma numberToString_digits:
  assumes "0 < N" and "N < 9007199254740992"
  shows "list_all isDigit (numberToString rt N) \<and>
         digitsValue (numberToString rt N) = nat N \<and>
         hd (numberToString rt N) \<noteq> 48"
  using assms decimal_digits [of "nat N"] decimal_value [of "nat N"]
    decimal_no_leading_zero [of "nat N"]
  by (simp add: numberToString_small)

subsection \<open>The log and the result of execute\<close>

lemma dispatch_log_no_close: "filter isClose (fst (dispatch h c)) = []"
  by (simp add: dispatch_def queryBranch_def insertBranch_def isClose_def Let_def
      split: sum.split option.split)

lemma execute_log: "fst (execute h c) = fst (dispatch h c) @ [ClientClose]"
  by (cases "dispatch h c"; cases "snd (dispatch h c)")
     (auto simp: execute_def split: option.split)

lemma execute_result:
  "snd (execute h c) =
     (case close_result c (fst (dispatch h c)) of
        Some ce \<Rightarrow> Inl (Rethrown ce)
      | None \<Rightarrow> (case snd (dispatch h c) of
                  Inl err \<Rightarrow> Inl err
                | Inr returnItems \<Rightarrow> Inr (prepareOutputData h returnItems)))"
  by (cases "dispatch h c"; cases "snd (dispatch h c)")
     (auto simp: execute_def split: option.split)

subsection \<open>The branches of the try block\<close>

lemma queryBranch_readOnly:
  assumes "param_query h = Inr S" and "param_options h = Inr opts"
    and "readOnlyMode opts = Some True"
  shows "queryBranch h c =
     (if readOnlyAllowed (engine h) S
      then (let q = addLimit (engine h) S (case maxResults opts of Some n \<Rightarrow> n | None \<Rightarrow> 0) in
            ([ClientQuery q JSONEachRow],
             case query_result c q of
               Inl e \<Rightarrow> Inl (Rethrown e)
             | Inr result \<Rightarrow>
                 (case json_result c result of
                    Inl e \<Rightarrow> Inl (Rethrown e)
                  | Inr rows \<Rightarrow> Inr (map (\<lambda>row. \<lparr>json = row\<rparr>) rows))))
      else ([], Inl (NodeOperationError readOnlyMessage)))"
  using assms by (simp add: queryBranch_def Let_def split: sum.split)

lemma queryBranch_accepted:
  assumes "param_query h = Inr S" and "param_options h = Inr opts"
    and "\<not> (readOnlyMode opts = Some True \<and> \<not> readOnlyAllowed (engine h) S)"
  shows "queryBranch h c =
     (let q = addLimit (engine h) S (case maxResults opts of Some n \<Rightarrow> n | None \<Rightarrow> 0) in
            ([ClientQuery q JSONEachRow],
             case query_result c q of
               Inl e \<Rightarrow> Inl (Rethrown e)
             | Inr result \<Rightarrow>
                 (case json_result c result of
                    Inl e \<Rightarrow> Inl (Rethrown e)
                  | Inr rows \<Rightarrow> Inr (map (\<lambda>row. \<lparr>json = row\<rparr>) rows))))"
  using assms by (auto simp add: queryBranch_def Let_def split: sum.split option.split)

lemma readOnlyAllowed_prefixes:
  "readOnlyAllowed rt S =
     list_ex (startsWith (toUpperCase rt (trim S)))
       [str ''SELECT'', str ''SHOW'', str ''DESCRIBE'', str ''DESC'']"
  by (simp add: readOnlyAllowed_def Let_def del: startsWith.simps)

lemma addLimit_cases:
  "addLimit rt S n = S \<or> addLimit rt S n = S @ str '' LIMIT '' @ numberToString rt n"
  by (simp add: addLimit_def)

lemma accepted_result_not_validation:
  "(case query_result c q of
               Inl e \<Rightarrow> Inl (Rethrown e)
             | Inr result \<Rightarrow>
                 (case json_result c result of
                    Inl e \<Rightarrow> Inl (Rethrown e)
                  | Inr rows \<Rightarrow> Inr (f rows))) \<noteq> Inl (NodeOperationError msg)"
  by (simp split: sum.split)

lemma insertBranch_eq:
  assumes "getInputData h = Inr items" and "param_table h = Inr t"
  shows "insertBranch h c =
     ([ClientInsert t JSONEachRow (map json items)],
      case insert_result c t (map json items) of
        None \<Rightarrow> Inr [] | Some e \<Rightarrow> Inl (Rethrown e))"
  using assms by (simp add: insertBranch_def Let_def split: option.split)

lemma dispatch_insert:
  assumes "param_operation h = ''insert''"
  shows "dispatch h c = insertBranch h c"
  using assms by (simp add: dispatch_def)

lemma dispatch_other:
  assumes "param_operation h \<noteq> ''query''" and "param_operation h \<noteq> ''insert''"
  shows "dispatch h c = ([], Inr [])"
  using assms by (simp add: dispatch_def)

lemma dispatch_fails_branch:
  assumes "snd (dispatch h c) = Inl err"
  shows "param_operation h = ''query'' \<or> param_operation h = ''insert''"
proof (rule ccontr)
  assume "\<not> (param_operation h = ''query'' \<or> param_operation h = ''insert'')"
  then have "dispatch h c = ([], Inr [])" by (simp add: dispatch_other)
  with assms show False by simp
qed

subsection \<open>The credential test, case by case\<close>

lemma connectionTest_create_fails:
  assumes "createClient (clientConfig credentials) = Inl e"
  shows "clickhouseConnectionTest createClient credentials =
           ([], \<lparr>status = ''Error'', message = error_message e\<rparr>)"
  using assms by (simp add: clickhouseConnectionTest_def)

lemma connectionTest_probe_fails:
  assumes "createClient (clientConfig credentials) = Inr client"
    and "query_result client (str ''SELECT 1'') = Inl e"
  shows "clickhouseConnectionTest createClient credentials =
           ([ClientQuery (str ''SELECT 1'') JSONEachRow],
            \<lparr>status = ''Error'', message = error_message e\<rparr>)"
  using assms by (simp add: clickhouseConnectionTest_def)

lemma connectionTest_probe_ok:
  assumes "createClient (clientConfig credentials) = Inr client"
    and "query_result client (str ''SELECT 1'') = Inr rs"
  shows "clickhouseConnectionTest createClient credentials =
           ([ClientQuery (str ''SELECT 1'') JSONEachRow, ClientClose],
            case close_result client [ClientQuery (str ''SELECT 1'') JSONEachRow] of
              None \<Rightarrow> \<lparr>status = ''OK'', message = ''Connection successful!''\<rparr>
            | Some e \<Rightarrow> \<lparr>status = ''Error'', message = error_message e\<rparr>)"
  using assms by (simp add: clickhouseConnectionTest_def split: option.split)

subsection \<open>Evaluating the string operations on a given text\<close>

lemmas string_eval =
  toUpperCase_def trim_def isWhiteSpace_def str_def upperCodePoint_def codeUnits_def
  sampleRuntime_def

section \<open>The claims\<close>

subsection \<open>C1: read-only validation\<close>

text \<open>
  C1. For a query run with operation \<open>query\<close> and read-only mode enabled, the \<open>try\<close> block
  raises the validation error (a \<open>NodeOperationError\<close>) if and only if the text, trimmed and
  upper-cased as JavaScript does both, starts with none of SELECT, SHOW, DESCRIBE, DESC. This
  holds for every text of code units and every upper-case table of the engine. When the text
  starts with one of the four, the text sent to the database is the original text,
  untrimmed and in its own case, or that text followed by the LIMIT clause. When it starts
  with none, nothing is sent to the database: the connection is closed, and the validation
  error leaves \<open>execute\<close> when the close succeeds. Trimming is what the name says: the text
  is its trimmed part between two runs of white space, and the trimmed part neither starts
  nor ends with white space. For a text of ASCII characters upper-casing maps a to z to A
  to Z and changes nothing else.
\<close>

theorem readOnly_validation:
  assumes "param_operation h = ''query''"
    and "param_query h = Inr S"
    and "param_options h = Inr opts"
    and "readOnlyMode opts = Some True"
  shows
    "((\<exists>msg. snd (dispatch h c) = Inl (NodeOperationError msg)) =
        (\<not> list_ex (startsWith (toUpperCase (engine h) (trim S)))
              [str ''SELECT'', str ''SHOW'', str ''DESCRIBE'', str ''DESC''])) \<and>
     (if list_ex (startsWith (toUpperCase (engine h) (trim S)))
           [str ''SELECT'', str ''SHOW'', str ''DESCRIBE'', str ''DESC'']
      then (fst (dispatch h c) = [ClientQuery S JSONEachRow] \<or>
            fst (dispatch h c) =
              [ClientQuery (S @ str '' LIMIT '' @
                 numberToString (engine h)
                   (case maxResults opts of Some n \<Rightarrow> n | None \<Rightarrow> 0)) JSONEachRow])
      else (dispatch h c = ([], Inl (NodeOperationError readOnlyMessage)) \<and>
            fst (execute h c) = [ClientClose] \<and>
            snd (execute h c) =
              (case close_result c [] of
                 None \<Rightarrow> Inl (NodeOperationError readOnlyMessage)
               | Some ce \<Rightarrow> Inl (Rethrown ce)))) \<and>
     (\<exists>w1 w2. S = w1 @ trim S @ w2 \<and>
        list_all isWhiteSpace w1 \<and> list_all isWhiteSpace w2) \<and>
     (trim S \<noteq> [] \<longrightarrow>
        \<not> isWhiteSpace (hd (trim S)) \<and> \<not> isWhiteSpace (last (trim S))) \<and>
     (isAscii S \<longrightarrow> toUpperCase (engine h) (trim S) = map asciiUpper (trim S))"
proof -
  have main:
    "((\<exists>msg. snd (dispatch h c) = Inl (NodeOperationError msg)) =
        (\<not> list_ex (startsWith (toUpperCase (engine h) (trim S)))
              [str ''SELECT'', str ''SHOW'', str ''DESCRIBE'', str ''DESC''])) \<and>
     (if list_ex (startsWith (toUpperCase (engine h) (trim S)))
           [str ''SELECT'', str ''SHOW'', str ''DESCRIBE'', str ''DESC'']
      then (fst (dispatch h c) = [ClientQuery S JSONEachRow] \<or>
            fst (dispatch h c) =
              [ClientQuery (S @ str '' LIMIT '' @
                 numberToString (engine h)
                   (case maxResults opts of Some n \<Rightarrow> n | None \<Rightarrow> 0)) JSONEachRow])
      else (dispatch h c = ([], Inl (NodeOperationError readOnlyMessage)) \<and>
            fst (execute h c) = [ClientClose] \<and>
            snd (execute h c) =
              (case close_result c [] of
                 None \<Rightarrow> Inl (NodeOperationError readOnlyMessage)
               | Some ce \<Rightarrow> Inl (Rethrown ce))))"
  proof (cases "readOnlyAllowed (engine h) S")
    case True
    have d: "dispatch h c = queryBranch h c"
      using assms(1) by (simp add: dispatch_def)
    have q: "queryBranch h c =
        (let q = addLimit (engine h) S (case maxResults opts of Some n \<Rightarrow> n | None \<Rightarrow> 0) in
              ([ClientQuery q JSONEachRow],
               case query_result c q of
                 Inl e \<Rightarrow> Inl (Rethrown e)
               | Inr result \<Rightarrow>
                   (case json_result c result of
                      Inl e \<Rightarrow> Inl (Rethrown e)
                    | Inr rows \<Rightarrow> Inr (map (\<lambda>row. \<lparr>json = row\<rparr>) rows))))"
      using queryBranch_readOnly [OF assms(2) assms(3) assms(4), of c] True by simp
    have no: "\<not> (\<exists>msg. snd (dispatch h c) = Inl (NodeOperationError msg))"
      unfolding d q Let_def snd_conv using accepted_result_not_validation by blast
    have lg: "fst (dispatch h c) =
        [ClientQuery (addLimit (engine h) S
           (case maxResults opts of Some n \<Rightarrow> n | None \<Rightarrow> 0)) JSONEachRow]"
      unfolding d q Let_def by simp
    from True have p: "list_ex (startsWith (toUpperCase (engine h) (trim S)))
        [str ''SELECT'', str ''SHOW'', str ''DESCRIBE'', str ''DESC'']"
      by (simp only: readOnlyAllowed_prefixes)
    show ?thesis
      using no lg p
        addLimit_cases [of "engine h" S "case maxResults opts of Some n \<Rightarrow> n | None \<Rightarrow> 0"]
      by (auto simp del: startsWith.simps)
  next
    case False
    have d: "dispatch h c = ([], Inl (NodeOperationError readOnlyMessage))"
      using assms(1) queryBranch_readOnly [OF assms(2) assms(3) assms(4), of c] False
      by (simp add: dispatch_def)
    from False have p: "\<not> list_ex (startsWith (toUpperCase (engine h) (trim S)))
        [str ''SELECT'', str ''SHOW'', str ''DESCRIBE'', str ''DESC'']"
      unfolding readOnlyAllowed_prefixes .
    have e1: "fst (execute h c) = [ClientClose]"
      by (simp add: execute_log d)
    have e2: "snd (execute h c) =
                (case close_result c [] of
                   None \<Rightarrow> Inl (NodeOperationError readOnlyMessage)
                 | Some ce \<Rightarrow> Inl (Rethrown ce))"
      by (simp add: execute_result d split: option.split)
    show ?thesis using p d e1 e2 by simp
  qed
  have 3: "\<exists>w1 w2. S = w1 @ trim S @ w2 \<and>
        list_all isWhiteSpace w1 \<and> list_all isWhiteSpace w2"
    by (rule trim_decomposition)
  have 4: "trim S \<noteq> [] \<longrightarrow>
        \<not> isWhiteSpace (hd (trim S)) \<and> \<not> isWhiteSpace (last (trim S))"
    using trim_ends [of S] by blast
  have 5: "isAscii S \<longrightarrow> toUpperCase (engine h) (trim S) = map asciiUpper (trim S)"
    using isAscii_trim [of S] toUpperCase_ascii [of "trim S" "engine h"] by blast
  from main 3 4 5 show ?thesis by blast
qed

text \<open>
  The theorem at five texts. Accepted: \<open>select\<close> in lower case after two spaces;
  \<open>Show tables\<close> between a no-break space, a tab, an em space and a byte order mark in front
  and a line feed and an ideographic space behind; and \<open>select\<close> spelt with the long s, which
  JavaScript upper-cases to S. Rejected: \<open>Drop table t\<close>, which reaches the database with
  no request.
\<close>

theorem readOnly_validation_witness:
  "param_operation (stubHost ''query'' (str ''  select 1'')
       \<lparr>readOnlyMode = Some True, maxResults = Some 10\<rparr> ''t'' []) = ''query'' \<and>
   \<not> (\<exists>msg. snd (dispatch
       (stubHost ''query'' (str ''  select 1'')
          \<lparr>readOnlyMode = Some True, maxResults = Some 10\<rparr> ''t'' [])
       (stubClient (Inr exampleRows) None None)) = Inl (NodeOperationError msg)) \<and>
   \<not> (\<exists>msg. snd (dispatch
       (stubHost ''query'' ([160, 9, 8195, 65279] @ str ''Show tables'' @ [10, 12288])
          \<lparr>readOnlyMode = Some True, maxResults = Some 10\<rparr> ''t'' [])
       (stubClient (Inr exampleRows) None None)) = Inl (NodeOperationError msg)) \<and>
   \<not> (\<exists>msg. snd (dispatch
       (stubHost ''query'' ([383] @ str ''elect 1'')
          \<lparr>readOnlyMode = Some True, maxResults = Some 10\<rparr> ''t'' [])
       (stubClient (Inr exampleRows) None None)) = Inl (NodeOperationError msg)) \<and>
   (\<exists>msg. snd (dispatch
       (stubHost ''query'' (str ''Drop table t'')
          \<lparr>readOnlyMode = Some True, maxResults = Some 10\<rparr> ''t'' [])
       (stubClient (Inr exampleRows) None None)) = Inl (NodeOperationError msg)) \<and>
   fst (execute
       (stubHost ''query'' (str ''Drop table t'')
          \<lparr>readOnlyMode = Some True, maxResults = Some 10\<rparr> ''t'' [])
       (stubClient (Inr exampleRows) None None)) = [ClientClose]"
proof -
  let ?o = "\<lparr>readOnlyMode = Some True, maxResults = Some 10\<rparr>"
  let ?h = "\<lambda>q. stubHost ''query'' q ?o ''t'' []"
  let ?c = "stubClient (Inr exampleRows) None None"
  let ?P = "\<lambda>q. list_ex (startsWith (toUpperCase sampleRuntime (trim q)))
      [str ''SELECT'', str ''SHOW'', str ''DESCRIBE'', str ''DESC'']"
  have p1: "?P (str ''  select 1'')"
    by (simp add: string_eval)
  have p2: "?P ([160, 9, 8195, 65279] @ str ''Show tables'' @ [10, 12288])"
    by (simp add: string_eval)
  have p3: "?P ([383] @ str ''elect 1'')"
    by (simp add: string_eval)
  have p4: "\<not> ?P (str ''Drop table t'')"
    by (simp add: string_eval)
  have a: "\<And>q. param_operation (?h q) = ''query''" "\<And>q. param_query (?h q) = Inr q"
    "\<And>q. param_options (?h q) = Inr ?o"
    by (simp_all add: stubHost_def)
  have en: "\<And>q. engine (?h q) = sampleRuntime" by (simp add: stubHost_def)
  have ro: "readOnlyMode ?o = Some True" by simp
  note t = readOnly_validation [OF a ro, of _ ?c, unfolded en]
  from t [of "str ''  select 1''"] p1
  have r1: "\<not> (\<exists>msg. snd (dispatch (?h (str ''  select 1'')) ?c) = Inl (NodeOperationError msg))"
    by blast
  from t [of "[160, 9, 8195, 65279] @ str ''Show tables'' @ [10, 12288]"] p2
  have r2: "\<not> (\<exists>msg. snd (dispatch
       (?h ([160, 9, 8195, 65279] @ str ''Show tables'' @ [10, 12288])) ?c) =
         Inl (NodeOperationError msg))"
    by blast
  from t [of "[383] @ str ''elect 1''"] p3
  have r3: "\<not> (\<exists>msg. snd (dispatch (?h ([383] @ str ''elect 1'')) ?c) =
         Inl (NodeOperationError msg))"
    by blast
  from t [of "str ''Drop table t''"] p4
  have r4: "\<exists>msg. snd (dispatch (?h (str ''Drop table t'')) ?c) = Inl (NodeOperationError msg)"
    by blast
  from t [of "str ''Drop table t''"] p4
  have r5: "fst (execute (?h (str ''Drop table t'')) ?c) = [ClientClose]"
    by (simp only: if_False)
  from a(1) r1 r2 r3 r4 r5 show ?thesis by blast
qed

subsection \<open>C2: LIMIT injection\<close>

text \<open>
  C2 as stated says that a LIMIT clause is appended whenever \<open>N > 0\<close> and the text does not
  contain LIMIT in any letter case. The text \<open>select l\<close>, dotless i, \<open>m\<close>, dotless i,
  \<open>t from t\<close> contains LIMIT in no letter case, since the dotless i is neither i nor I. But
  JavaScript upper-cases the dotless i to I, so the upper-cased text does contain LIMIT, and
  with max-results 5 the code sends the text unchanged, not the text followed by
  \<open>LIMIT 5\<close>.
\<close>

theorem limit_dotless_i_counterexample:
  "\<not> containsIgnoreCase dotlessLimitQuery (str ''LIMIT'') \<and>
   fst (dispatch
     (stubHost ''query'' dotlessLimitQuery \<lparr>readOnlyMode = None, maxResults = Some 5\<rparr> ''t'' [])
     (stubClient (Inr exampleRows) None None)) = [ClientQuery dotlessLimitQuery JSONEachRow] \<and>
   dotlessLimitQuery \<noteq> dotlessLimitQuery @ str '' LIMIT '' @ numberToString sampleRuntime 5"
proof -
  have 1: "\<not> containsIgnoreCase dotlessLimitQuery (str ''LIMIT'')"
    by (simp add: containsIgnoreCase_def equalsIgnoreCase_def dotlessLimitQuery_def str_def
        asciiUpper_def)
  have u: "includes_str (toUpperCase sampleRuntime dotlessLimitQuery) (str ''LIMIT'')"
    by (simp add: dotlessLimitQuery_def string_eval)
  have 2: "fst (dispatch
     (stubHost ''query'' dotlessLimitQuery \<lparr>readOnlyMode = None, maxResults = Some 5\<rparr> ''t'' [])
     (stubClient (Inr exampleRows) None None)) = [ClientQuery dotlessLimitQuery JSONEachRow]"
    using u
    by (simp add: dispatch_def queryBranch_def addLimit_def stubHost_def stubClient_def Let_def)
  have 3: "dotlessLimitQuery \<noteq>
      dotlessLimitQuery @ str '' LIMIT '' @ numberToString sampleRuntime 5"
    by (simp add: str_def)
  from 1 2 3 show ?thesis by blast
qed

text \<open>
  C2, amended. For a query text \<open>S\<close> that passes the read-only check and a max-results
  integer \<open>N\<close> (0 when the option is not set), exactly one query is sent to the database, and
  its text is \<open>S\<close> followed by \<open>LIMIT N\<close> when \<open>N > 0\<close> and the JavaScript upper-casing of
  \<open>S\<close> does not contain LIMIT, and \<open>S\<close> itself in every other case. \<open>N\<close> is written as
  JavaScript writes the number: for \<open>0 < N < 2^53\<close> these are decimal digits without a
  leading zero whose value is \<open>N\<close>. For a text of ASCII characters the condition is the
  one of the specification, stated with \<open>containsIgnoreCase\<close>: the text contains LIMIT in no
  letter case.
\<close>

theorem limit_injection:
  assumes "param_operation h = ''query''"
    and "param_query h = Inr S"
    and "param_options h = Inr opts"
    and "(case maxResults opts of Some n \<Rightarrow> n | None \<Rightarrow> 0) = N"
    and "\<not> (readOnlyMode opts = Some True \<and> \<not> readOnlyAllowed (engine h) S)"
  shows "fst (dispatch h c) =
           [ClientQuery
              (if N > 0 \<and> \<not> includes_str (toUpperCase (engine h) S) (str ''LIMIT'')
               then S @ str '' LIMIT '' @ numberToString (engine h) N else S) JSONEachRow] \<and>
         (0 < N \<and> N < 9007199254740992 \<longrightarrow>
            list_all isDigit (numberToString (engine h) N) \<and>
            digitsValue (numberToString (engine h) N) = nat N \<and>
            hd (numberToString (engine h) N) \<noteq> 48) \<and>
         (isAscii S \<longrightarrow>
            includes_str (toUpperCase (engine h) S) (str ''LIMIT'') =
              containsIgnoreCase S (str ''LIMIT''))"
proof -
  have d: "dispatch h c = queryBranch h c"
    using assms(1) by (simp add: dispatch_def)
  have "fst (dispatch h c) = [ClientQuery (addLimit (engine h) S N) JSONEachRow]"
    unfolding d queryBranch_accepted [OF assms(2) assms(3) assms(5), of c] assms(4) Let_def
    by simp
  then have 1: "fst (dispatch h c) =
           [ClientQuery
              (if N > 0 \<and> \<not> includes_str (toUpperCase (engine h) S) (str ''LIMIT'')
               then S @ str '' LIMIT '' @ numberToString (engine h) N else S) JSONEachRow]"
    by (simp only: addLimit_def)
  have 2: "0 < N \<and> N < 9007199254740992 \<longrightarrow>
            list_all isDigit (numberToString (engine h) N) \<and>
            digitsValue (numberToString (engine h) N) = nat N \<and>
            hd (numberToString (engine h) N) \<noteq> 48"
    using numberToString_digits [of N "engine h"] by blast
  have 3: "isAscii S \<longrightarrow>
            includes_str (toUpperCase (engine h) S) (str ''LIMIT'') =
              containsIgnoreCase S (str ''LIMIT'')"
    using includes_LIMIT_ascii [of S "engine h"] by blast
  from 1 2 3 show ?thesis by blast
qed

text \<open>
  The theorem at four inputs: a LIMIT is appended, a text with a lower-case \<open>limit\<close> is
  left alone, max-results 0 appends nothing, and max-results \<open>10^21\<close> is appended as the
  engine prints it. The digits appended for 25 have the value 25.
\<close>

theorem limit_injection_witness:
  "fst (dispatch
     (stubHost ''query'' (str ''select * from t'')
        \<lparr>readOnlyMode = None, maxResults = Some 25\<rparr> ''t'' [])
     (stubClient (Inr exampleRows) None None)) =
     [ClientQuery (str ''select * from t LIMIT 25'') JSONEachRow] \<and>
   fst (dispatch
     (stubHost ''query'' (str ''select * from t limit 3'')
        \<lparr>readOnlyMode = None, maxResults = Some 25\<rparr> ''t'' [])
     (stubClient (Inr exampleRows) None None)) =
     [ClientQuery (str ''select * from t limit 3'') JSONEachRow] \<and>
   fst (dispatch
     (stubHost ''query'' (str ''select * from t'')
        \<lparr>readOnlyMode = None, maxResults = Some 0\<rparr> ''t'' [])
     (stubClient (Inr exampleRows) None None)) =
     [ClientQuery (str ''select * from t'') JSONEachRow] \<and>
   fst (dispatch
     (stubHost ''query'' (str ''select * from t'')
        \<lparr>readOnlyMode = None, maxResults = Some 1000000000000000000000\<rparr> ''t'' [])
     (stubClient (Inr exampleRows) None None)) =
     [ClientQuery (str ''select * from t LIMIT 1e+21'') JSONEachRow] \<and>
   digitsValue (numberToString sampleRuntime 25) = 25"
proof -
  let ?c = "stubClient (Inr exampleRows) None None"
  let ?o = "\<lambda>n. \<lparr>readOnlyMode = None, maxResults = Some n\<rparr>"
  let ?h = "\<lambda>q n. stubHost ''query'' q (?o n) ''t'' []"
  have a: "\<And>q n. param_operation (?h q n) = ''query''"
    "\<And>q n. param_query (?h q n) = Inr q"
    "\<And>q n. param_options (?h q n) = Inr (?o n)"
    by (simp_all add: stubHost_def)
  have en: "\<And>q n. engine (?h q n) = sampleRuntime" by (simp add: stubHost_def)
  have m: "\<And>n. (case maxResults (?o n) of Some n \<Rightarrow> n | None \<Rightarrow> 0) = n" by simp
  have r: "\<And>n rt S. \<not> (readOnlyMode (?o n) = Some True \<and> \<not> readOnlyAllowed rt S)" by simp
  note t = limit_injection [OF a(1) a(2) a(3) m r, of _ _ ?c, unfolded en]
  have asc: "isAscii (str ''select * from t'')" "isAscii (str ''select * from t limit 3'')"
    by (simp_all add: isAscii_def str_def)
  have n1: "\<not> containsIgnoreCase (str ''select * from t'') (str ''LIMIT'')"
    by (simp add: containsIgnoreCase_def equalsIgnoreCase_def str_def asciiUpper_def)
  have n2: "containsIgnoreCase (str ''select * from t limit 3'') (str ''LIMIT'')"
    by (simp add: containsIgnoreCase_def equalsIgnoreCase_def str_def asciiUpper_def)
  have s1: "numberToString sampleRuntime 25 = str ''25''"
    by (simp add: numberToString_def naturalToString_def decimal.simps digitUnit_def str_def)
  have s2: "numberToString sampleRuntime 1000000000000000000000 = str ''1e+21''"
    by (simp add: numberToString_def naturalToString_def sampleRuntime_def)
  have t1: "fst (dispatch (?h (str ''select * from t'') 25) ?c) =
     [ClientQuery (str ''select * from t LIMIT 25'') JSONEachRow]"
    using t [of "str ''select * from t''" 25] n1 asc(1) s1 by (simp add: str_def)
  have t2: "fst (dispatch (?h (str ''select * from t limit 3'') 25) ?c) =
     [ClientQuery (str ''select * from t limit 3'') JSONEachRow]"
    using t [of "str ''select * from t limit 3''" 25] n2 asc(2) by simp
  have t3: "fst (dispatch (?h (str ''select * from t'') 0) ?c) =
     [ClientQuery (str ''select * from t'') JSONEachRow]"
    using t [of "str ''select * from t''" 0] by simp
  have t4: "fst (dispatch (?h (str ''select * from t'') 1000000000000000000000) ?c) =
     [ClientQuery (str ''select * from t LIMIT 1e+21'') JSONEachRow]"
    using t [of "str ''select * from t''" 1000000000000000000000] n1 asc(1) s2
    by (simp add: str_def)
  have t5: "digitsValue (numberToString sampleRuntime 25) = 25"
    using t [of "str ''select * from t''" 25] by simp
  from t1 t2 t3 t4 t5 show ?thesis by blast
qed

subsection \<open>C3: the connection is closed exactly once\<close>

text \<open>
  C3. Every run of \<open>execute\<close> from the \<open>try\<close> block on, whatever the host parameters
  and whatever the client answers (success, read-only rejection, a failing query, insert or
  parameter read), calls \<open>client.close()\<close> exactly once, and that call is the last one made
  on the client before the result or the error leaves the function.
\<close>

theorem close_exactly_once:
  "length (filter isClose (fst (execute h c))) = 1 \<and> last (fst (execute h c)) = ClientClose"
  by (simp add: execute_log dispatch_log_no_close isClose_def)

subsection \<open>C4: insert is one bulk call\<close>

text \<open>
  C4. For every input item list and table name, the insert operation makes exactly one
  request on the client: one \<open>insert\<close> call to the named table, in the JSONEachRow format,
  with the JSON payloads of all input items in input order; the only other call is the
  close. The \<open>try\<close> block leaves \<open>returnItems\<close> empty when the insert succeeds, and whenever
  \<open>execute\<close> returns, it returns the output prepared from zero items.
\<close>

theorem insert_single_bulk_call:
  assumes "param_operation h = ''insert''"
    and "getInputData h = Inr items"
    and "param_table h = Inr t"
  shows "fst (execute h c) = [ClientInsert t JSONEachRow (map json items), ClientClose] \<and>
         length (filter isRequest (fst (execute h c))) = 1 \<and>
         snd (dispatch h c) =
           (case insert_result c t (map json items) of
              None \<Rightarrow> Inr [] | Some e \<Rightarrow> Inl (Rethrown e)) \<and>
         (\<forall>out. snd (execute h c) = Inr out \<longrightarrow> out = prepareOutputData h [])"
proof -
  have d: "dispatch h c =
     ([ClientInsert t JSONEachRow (map json items)],
      case insert_result c t (map json items) of
        None \<Rightarrow> Inr [] | Some e \<Rightarrow> Inl (Rethrown e))"
    by (simp only: dispatch_insert [OF assms(1)] insertBranch_eq [OF assms(2) assms(3)])
  have l: "fst (execute h c) = [ClientInsert t JSONEachRow (map json items), ClientClose]"
    by (simp add: execute_log d)
  have n: "length (filter isRequest (fst (execute h c))) = 1"
    by (simp add: l isRequest_def)
  have r: "snd (dispatch h c) =
           (case insert_result c t (map json items) of
              None \<Rightarrow> Inr [] | Some e \<Rightarrow> Inl (Rethrown e))"
    by (simp add: d)
  have o: "\<forall>out. snd (execute h c) = Inr out \<longrightarrow> out = prepareOutputData h []"
    by (auto simp: execute_result r split: option.splits)
  from l n r o show ?thesis by blast
qed

text \<open>
  The specification's example: two items and the table \<open>product\<close>.
\<close>

theorem insert_single_bulk_call_witness:
  "fst (execute (stubHost ''insert'' [] \<lparr>readOnlyMode = None, maxResults = None\<rparr>
                   ''product'' exampleItems)
                (stubClient (Inr []) None None)) =
     [ClientInsert ''product'' JSONEachRow
        [[(''id'', JNumber 1), (''name'', JString ''a'')],
         [(''id'', JNumber 2), (''name'', JString ''b'')]],
      ClientClose] \<and>
   snd (dispatch (stubHost ''insert'' [] \<lparr>readOnlyMode = None, maxResults = None\<rparr>
                   ''product'' exampleItems)
                (stubClient (Inr []) None None)) = Inr []"
proof -
  let ?h = "stubHost ''insert'' [] \<lparr>readOnlyMode = None, maxResults = None\<rparr>
                   ''product'' exampleItems"
  let ?c = "stubClient (Inr []) None None"
  have a: "param_operation ?h = ''insert''" "getInputData ?h = Inr exampleItems"
    "param_table ?h = Inr ''product''"
    by (simp_all add: stubHost_def)
  have i: "insert_result ?c ''product'' (map json exampleItems) = None"
    by (simp add: stubClient_def)
  have j: "map json exampleItems =
        [[(''id'', JNumber 1), (''name'', JString ''a'')],
         [(''id'', JNumber 2), (''name'', JString ''b'')]]"
    by (simp add: exampleItems_def)
  show ?thesis
    using insert_single_bulk_call [OF a, of ?c] i j by simp
qed

subsection \<open>C5: what insert returns\<close>

text \<open>
  C5 as stated says that insert hands the input items back to the host. With the two
  example items the result is the output prepared from no items, which differs from the
  output prepared from the input items.
\<close>

theorem insert_echo_counterexample:
  "snd (execute (stubHost ''insert'' [] \<lparr>readOnlyMode = None, maxResults = None\<rparr>
                   ''product'' exampleItems)
                (stubClient (Inr []) None None)) = Inr [[]] \<and>
   prepareOutputData (stubHost ''insert'' [] \<lparr>readOnlyMode = None, maxResults = None\<rparr>
                   ''product'' exampleItems) exampleItems \<noteq> [[]]"
  by (simp add: execute_def dispatch_def insertBranch_def stubHost_def stubClient_def
      exampleItems_def)

text \<open>
  C5, amended. For every invocation with operation \<open>insert\<close> in which the insert call and
  the close succeed, the result returned to the host is the output prepared from the empty
  item list, whatever the input items are: the input items are not echoed.
\<close>

theorem insert_returns_no_items:
  assumes "param_operation h = ''insert''"
    and "getInputData h = Inr items"
    and "param_table h = Inr t"
    and "insert_result c t (map json items) = None"
    and "close_result c [ClientInsert t JSONEachRow (map json items)] = None"
  shows "snd (execute h c) = Inr (prepareOutputData h [])"
  using assms
  by (simp add: execute_result dispatch_insert insertBranch_eq)

text \<open>
  The theorem at the two example items.
\<close>

theorem insert_returns_no_items_witness:
  "snd (execute (stubHost ''insert'' [] \<lparr>readOnlyMode = None, maxResults = None\<rparr>
                   ''product'' exampleItems)
                (stubClient (Inr []) None None)) = Inr [[]]"
proof -
  let ?h = "stubHost ''insert'' [] \<lparr>readOnlyMode = None, maxResults = None\<rparr>
                   ''product'' exampleItems"
  let ?c = "stubClient (Inr []) None None"
  have a: "param_operation ?h = ''insert''" "getInputData ?h = Inr exampleItems"
    "param_table ?h = Inr ''product''"
    by (simp_all add: stubHost_def)
  have i: "insert_result ?c ''product'' (map json exampleItems) = None"
    "close_result ?c [ClientInsert ''product'' JSONEachRow (map json exampleItems)] = None"
    by (simp_all add: stubClient_def)
  have p: "prepareOutputData ?h [] = [[]]" by (simp add: stubHost_def)
  show ?thesis
    using insert_returns_no_items [OF a i] p by simp
qed

subsection \<open>C6: rows become items\<close>

text \<open>
  C6. When the database returns the rows \<open>rows\<close> for the query, the \<open>try\<close> block produces
  one output item per row: as many items as rows, the payload of the i-th item is the i-th
  row, and each item is the record with that payload alone. \<open>execute\<close> returns the output
  prepared from these items when the close succeeds, and the error of the close otherwise.
\<close>

theorem query_rows_to_items:
  assumes "param_operation h = ''query''"
    and "param_query h = Inr S"
    and "param_options h = Inr opts"
    and "\<not> (readOnlyMode opts = Some True \<and> \<not> readOnlyAllowed (engine h) S)"
    and "query_result c (addLimit (engine h) S (case maxResults opts of Some n \<Rightarrow> n | None \<Rightarrow> 0)) = Inr rs"
    and "json_result c rs = Inr rows"
  shows "(\<exists>returnItems. snd (dispatch h c) = Inr returnItems \<and>
            length returnItems = length rows \<and>
            (\<forall>i < length rows. json (returnItems ! i) = rows ! i) \<and>
            returnItems = map (\<lambda>row. \<lparr>json = row\<rparr>) rows \<and>
            snd (execute h c) =
              (case close_result c (fst (dispatch h c)) of
                 None \<Rightarrow> Inr (prepareOutputData h returnItems)
               | Some ce \<Rightarrow> Inl (Rethrown ce)))"
proof -
  have d: "dispatch h c = queryBranch h c"
    using assms(1) by (simp add: dispatch_def)
  have r: "snd (dispatch h c) = Inr (map (\<lambda>row. \<lparr>json = row\<rparr>) rows)"
    unfolding d queryBranch_accepted [OF assms(2) assms(3) assms(4), of c] Let_def
    using assms(5) assms(6) by simp
  have e: "snd (execute h c) =
              (case close_result c (fst (dispatch h c)) of
                 None \<Rightarrow> Inr (prepareOutputData h (map (\<lambda>row. \<lparr>json = row\<rparr>) rows))
               | Some ce \<Rightarrow> Inl (Rethrown ce))"
    by (simp add: execute_result r split: option.split)
  have n: "\<forall>i < length rows. json (map (\<lambda>row. \<lparr>json = row\<rparr>) rows ! i) = rows ! i"
    by simp
  from r e n show ?thesis by simp
qed

text \<open>
  The specification's example: the rows with ids 1 and 2.
\<close>

theorem query_rows_to_items_witness:
  "snd (dispatch (stubHost ''query'' (str ''select id from t'') \<lparr>readOnlyMode = Some True, maxResults = None\<rparr> ''t'' [])
                 (stubClient (Inr exampleRows) None None)) =
     Inr [\<lparr>json = [(''id'', JNumber 1)]\<rparr>, \<lparr>json = [(''id'', JNumber 2)]\<rparr>] \<and>
   snd (execute (stubHost ''query'' (str ''select id from t'') \<lparr>readOnlyMode = Some True, maxResults = None\<rparr> ''t'' [])
                 (stubClient (Inr exampleRows) None None)) =
     Inr [[\<lparr>json = [(''id'', JNumber 1)]\<rparr>, \<lparr>json = [(''id'', JNumber 2)]\<rparr>]]"
proof -
  let ?o = "\<lparr>readOnlyMode = Some True, maxResults = None\<rparr>"
  let ?h = "stubHost ''query'' (str ''select id from t'') ?o ''t'' []"
  let ?c = "stubClient (Inr exampleRows) None None"
  have a: "param_operation ?h = ''query''" "param_query ?h = Inr (str ''select id from t'')"
    "param_options ?h = Inr ?o"
    by (simp_all add: stubHost_def)
  have en: "engine ?h = sampleRuntime" by (simp add: stubHost_def)
  have ok: "readOnlyAllowed sampleRuntime (str ''select id from t'')"
    by (simp add: readOnlyAllowed_def string_eval)
  then have b: "\<not> (readOnlyMode ?o = Some True \<and>
      \<not> readOnlyAllowed (engine ?h) (str ''select id from t''))"
    by (simp add: en)
  have q: "query_result ?c (addLimit (engine ?h) (str ''select id from t'')
             (case maxResults ?o of Some n \<Rightarrow> n | None \<Rightarrow> 0)) = Inr exampleRows"
    "json_result ?c exampleRows = Inr exampleRows"
    by (simp_all add: stubClient_def)
  have cl: "\<And>q l. close_result (stubClient q None None) l = None"
    by (simp add: stubClient_def)
  have p: "\<And>xs. prepareOutputData ?h xs = [xs]" by (simp add: stubHost_def)
  from query_rows_to_items [OF a b q] obtain returnItems where
    ri: "snd (dispatch ?h ?c) = Inr returnItems"
      "returnItems = map (\<lambda>row. \<lparr>json = row\<rparr>) exampleRows"
      "snd (execute ?h ?c) =
         (case close_result ?c (fst (dispatch ?h ?c)) of
            None \<Rightarrow> Inr (prepareOutputData ?h returnItems)
          | Some ce \<Rightarrow> Inl (Rethrown ce))"
    by blast
  then show ?thesis
    by (simp add: cl p exampleRows_def)
qed

subsection \<open>C7: the status of the credential test\<close>

text \<open>
  C7 as stated says that the status is OK when connecting and the probe succeed, and that
  the message of an Error is not empty. A probe that succeeds followed by a close that
  rejects gives the status Error, and a probe that rejects with an error whose message is
  empty gives an Error with the empty message.
\<close>

theorem connectionTest_close_failure_counterexample:
  "query_result (stubClient (Inr []) None (Some (JsError ''socket hang up''))) (str ''SELECT 1'') = Inr [] \<and>
   snd (clickhouseConnectionTest
          (\<lambda>config. Inr (stubClient (Inr []) None (Some (JsError ''socket hang up''))))
          exampleCredentials) = \<lparr>status = ''Error'', message = ''socket hang up''\<rparr> \<and>
   snd (clickhouseConnectionTest
          (\<lambda>config. Inr (stubClient (Inl (JsError [])) None None))
          exampleCredentials) = \<lparr>status = ''Error'', message = []\<rparr>"
  by (simp add: clickhouseConnectionTest_def stubClient_def)

text \<open>
  C7, amended. The credential test always returns a result, never an exception, and its
  status is one of OK and Error. It is OK exactly when creating the client, the
  \<open>SELECT 1\<close> probe and the close all succeed. When one of the three fails, the status is
  Error and the message is the message of that error, forwarded as it is.
\<close>

theorem connectionTest_status:
  "(status (snd (clickhouseConnectionTest createClient credentials)) = ''OK'' \<or>
    status (snd (clickhouseConnectionTest createClient credentials)) = ''Error'') \<and>
   ((status (snd (clickhouseConnectionTest createClient credentials)) = ''OK'') =
      (\<exists>client rs. createClient (clientConfig credentials) = Inr client \<and>
         query_result client (str ''SELECT 1'') = Inr rs \<and>
         close_result client [ClientQuery (str ''SELECT 1'') JSONEachRow] = None)) \<and>
   (\<forall>e. createClient (clientConfig credentials) = Inl e \<longrightarrow>
      snd (clickhouseConnectionTest createClient credentials) =
        \<lparr>status = ''Error'', message = error_message e\<rparr>) \<and>
   (\<forall>client e. createClient (clientConfig credentials) = Inr client \<and>
        query_result client (str ''SELECT 1'') = Inl e \<longrightarrow>
      snd (clickhouseConnectionTest createClient credentials) =
        \<lparr>status = ''Error'', message = error_message e\<rparr>) \<and>
   (\<forall>client rs e. createClient (clientConfig credentials) = Inr client \<and>
        query_result client (str ''SELECT 1'') = Inr rs \<and>
        close_result client [ClientQuery (str ''SELECT 1'') JSONEachRow] = Some e \<longrightarrow>
      snd (clickhouseConnectionTest createClient credentials) =
        \<lparr>status = ''Error'', message = error_message e\<rparr>)"
proof (cases "createClient (clientConfig credentials)")
  case (Inl e)
  show ?thesis by (simp add: connectionTest_create_fails [of createClient credentials, OF Inl] Inl)
next
  case (Inr client)
  show ?thesis
  proof (cases "query_result client (str ''SELECT 1'')")
    case (Inl e)
    show ?thesis by (simp add: connectionTest_probe_fails [of createClient credentials, OF Inr Inl] Inr Inl)
  next
    case r: (Inr rs)
    show ?thesis
      by (cases "close_result client [ClientQuery (str ''SELECT 1'') JSONEachRow]")
         (simp_all add: connectionTest_probe_ok [of createClient credentials, OF Inr r] Inr r)
  qed
qed

text \<open>
  The theorem at a client whose calls all succeed and at one whose probe is refused.
\<close>

theorem connectionTest_status_witness:
  "status (snd (clickhouseConnectionTest
          (\<lambda>config. Inr (stubClient (Inr []) None None)) exampleCredentials)) = ''OK'' \<and>
   snd (clickhouseConnectionTest
          (\<lambda>config. Inr (stubClient (Inl (JsError ''connect ECONNREFUSED'')) None None))
          exampleCredentials) = \<lparr>status = ''Error'', message = ''connect ECONNREFUSED''\<rparr>"
proof -
  let ?ok = "stubClient (Inr []) None None"
  let ?bad = "stubClient (Inl (JsError ''connect ECONNREFUSED'')) None None"
  have 1: "status (snd (clickhouseConnectionTest (\<lambda>config. Inr ?ok) exampleCredentials)) = ''OK''"
    using connectionTest_status [of "\<lambda>config. Inr ?ok" exampleCredentials]
    by (simp add: stubClient_def)
  have 2: "snd (clickhouseConnectionTest (\<lambda>config. Inr ?bad) exampleCredentials) =
       \<lparr>status = ''Error'', message = error_message (JsError ''connect ECONNREFUSED'')\<rparr>"
    using connectionTest_status [of "\<lambda>config. Inr ?bad" exampleCredentials]
    by (simp add: stubClient_def)
  from 1 2 show ?thesis by simp
qed

subsection \<open>C8: the close in the credential test\<close>

text \<open>
  C8 as stated says that the connection is closed whether or not the probe succeeds, and
  that an error of the close does not change the status. When the probe rejects, no close
  is called at all; and the same client reports OK when its close succeeds and Error when
  its close rejects.
\<close>

theorem connectionTest_close_counterexample:
  "filter isClose (fst (clickhouseConnectionTest
          (\<lambda>config. Inr (stubClient (Inl (JsError ''connect ECONNREFUSED'')) None None))
          exampleCredentials)) = [] \<and>
   status (snd (clickhouseConnectionTest
          (\<lambda>config. Inr (stubClient (Inr []) None None)) exampleCredentials)) = ''OK'' \<and>
   status (snd (clickhouseConnectionTest
          (\<lambda>config. Inr (stubClient (Inr []) None (Some (JsError ''socket hang up''))))
          exampleCredentials)) = ''Error''"
  by (simp add: clickhouseConnectionTest_def stubClient_def isClose_def)

text \<open>
  C8, amended. When the client is created and the \<open>SELECT 1\<close> probe succeeds, the credential
  test calls close exactly once, after the probe and before it returns. An error raised by
  that close is caught, not propagated: it is reported as status Error with the message of
  the close error.
\<close>

theorem connectionTest_closes_after_probe:
  assumes "createClient (clientConfig credentials) = Inr client"
    and "query_result client (str ''SELECT 1'') = Inr rs"
  shows "fst (clickhouseConnectionTest createClient credentials) =
           [ClientQuery (str ''SELECT 1'') JSONEachRow, ClientClose] \<and>
         length (filter isClose (fst (clickhouseConnectionTest createClient credentials))) = 1 \<and>
         snd (clickhouseConnectionTest createClient credentials) =
           (case close_result client [ClientQuery (str ''SELECT 1'') JSONEachRow] of
              None \<Rightarrow> \<lparr>status = ''OK'', message = ''Connection successful!''\<rparr>
            | Some e \<Rightarrow> \<lparr>status = ''Error'', message = error_message e\<rparr>)"
  by (simp add: connectionTest_probe_ok [of createClient credentials, OF assms] isClose_def)

text \<open>
  The theorem at a client whose probe succeeds and whose close rejects.
\<close>

theorem connectionTest_closes_after_probe_witness:
  "fst (clickhouseConnectionTest
          (\<lambda>config. Inr (stubClient (Inr []) None (Some (JsError ''socket hang up''))))
          exampleCredentials) = [ClientQuery (str ''SELECT 1'') JSONEachRow, ClientClose] \<and>
   snd (clickhouseConnectionTest
          (\<lambda>config. Inr (stubClient (Inr []) None (Some (JsError ''socket hang up''))))
          exampleCredentials) = \<lparr>status = ''Error'', message = ''socket hang up''\<rparr>"
proof -
  let ?c = "stubClient (Inr []) None (Some (JsError ''socket hang up''))"
  have a: "(\<lambda>config. Inr ?c) (clientConfig exampleCredentials) = Inr ?c" by simp
  have b: "query_result ?c (str ''SELECT 1'') = Inr []" by (simp add: stubClient_def)
  have cl: "close_result ?c [ClientQuery (str ''SELECT 1'') JSONEachRow] = Some (JsError ''socket hang up'')"
    by (simp add: stubClient_def)
  show ?thesis
    using connectionTest_closes_after_probe
      [of "\<lambda>config. Inr ?c" exampleCredentials ?c "[]", OF a b]
    by (simp add: cl)
qed

subsection \<open>C9: an operation that is neither query nor insert\<close>

text \<open>
  C9 as stated says that such an invocation never raises an error. With the operation
  \<open>delete\<close> and a client whose close rejects, \<open>execute\<close> raises the error of the close.
\<close>

theorem unknown_operation_close_fails_counterexample:
  "param_operation (stubHost ''delete'' [] \<lparr>readOnlyMode = None, maxResults = None\<rparr> [] [])
     \<noteq> ''query'' \<and>
   param_operation (stubHost ''delete'' [] \<lparr>readOnlyMode = None, maxResults = None\<rparr> [] [])
     \<noteq> ''insert'' \<and>
   snd (execute (stubHost ''delete'' [] \<lparr>readOnlyMode = None, maxResults = None\<rparr> [] [])
                (stubClient (Inr []) None (Some (JsError ''socket hang up'')))) =
     Inl (Rethrown (JsError ''socket hang up''))"
  by (simp add: execute_def dispatch_def stubHost_def stubClient_def)

text \<open>
  C9, amended. For every operation selector other than \<open>query\<close> and \<open>insert\<close>, the
  \<open>try\<close> block makes no call on the client and raises nothing; \<open>execute\<close> makes the
  close its only call on the client, and returns the output prepared from the empty item list
  when the close succeeds; when the close rejects, its error propagates.
\<close>

theorem unknown_operation:
  assumes "param_operation h \<noteq> ''query''" and "param_operation h \<noteq> ''insert''"
  shows "dispatch h c = ([], Inr []) \<and>
         fst (execute h c) = [ClientClose] \<and>
         snd (execute h c) =
           (case close_result c [] of
              None \<Rightarrow> Inr (prepareOutputData h [])
            | Some ce \<Rightarrow> Inl (Rethrown ce))"
  by (simp add: execute_log execute_result dispatch_other [OF assms] split: option.split)

text \<open>
  The theorem at the operation \<open>delete\<close> with a client whose close succeeds.
\<close>

theorem unknown_operation_witness:
  "fst (execute (stubHost ''delete'' [] \<lparr>readOnlyMode = None, maxResults = None\<rparr> [] exampleItems)
                (stubClient (Inr []) None None)) = [ClientClose] \<and>
   snd (execute (stubHost ''delete'' [] \<lparr>readOnlyMode = None, maxResults = None\<rparr> [] exampleItems)
                (stubClient (Inr []) None None)) = Inr [[]]"
proof -
  let ?h = "stubHost ''delete'' [] \<lparr>readOnlyMode = None, maxResults = None\<rparr> [] exampleItems"
  let ?c = "stubClient (Inr []) None None"
  have a: "param_operation ?h \<noteq> ''query''" "param_operation ?h \<noteq> ''insert''"
    by (simp_all add: stubHost_def)
  have cl: "close_result ?c [] = None" by (simp add: stubClient_def)
  have p: "prepareOutputData ?h [] = [[]]" by (simp add: stubHost_def)
  show ?thesis
    using unknown_operation [OF a, of ?c] by (simp add: cl p)
qed

subsection \<open>C10: an error of the close replaces the original error\<close>

text \<open>
  C10. When the \<open>try\<close> block fails with an error, which only its query and insert branches
  can do, and the close in the \<open>catch\<close> rejects as well, \<open>execute\<close> raises the error of
  the close, whatever the original error was.
\<close>

theorem close_error_masks_original:
  assumes "snd (dispatch h c) = Inl err"
    and "close_result c (fst (dispatch h c)) = Some ce"
  shows "snd (execute h c) = Inl (Rethrown ce) \<and>
         (param_operation h = ''query'' \<or> param_operation h = ''insert'')"
  using assms dispatch_fails_branch [OF assms(1)]
  by (simp add: execute_result)

text \<open>
  The theorem at a query that the database refuses, with a close that rejects: the error
  of the query is what the \<open>try\<close> block raised, the error of the close is what leaves.
\<close>

theorem close_error_masks_original_witness:
  "snd (dispatch (stubHost ''query'' (str ''select 1'') \<lparr>readOnlyMode = None, maxResults = None\<rparr> [] [])
          (stubClient (Inl (JsError ''Unknown table'')) None (Some (JsError ''close failed'')))) =
     Inl (Rethrown (JsError ''Unknown table'')) \<and>
   snd (execute (stubHost ''query'' (str ''select 1'') \<lparr>readOnlyMode = None, maxResults = None\<rparr> [] [])
          (stubClient (Inl (JsError ''Unknown table'')) None (Some (JsError ''close failed'')))) =
     Inl (Rethrown (JsError ''close failed''))"
proof -
  let ?h = "stubHost ''query'' (str ''select 1'') \<lparr>readOnlyMode = None, maxResults = None\<rparr> [] []"
  let ?c = "stubClient (Inl (JsError ''Unknown table'')) None (Some (JsError ''close failed''))"
  have d: "snd (dispatch ?h ?c) = Inl (Rethrown (JsError ''Unknown table''))"
    by (simp add: dispatch_def queryBranch_def stubHost_def stubClient_def)
  have cl: "close_result ?c (fst (dispatch ?h ?c)) = Some (JsError ''close failed'')"
    by (simp add: stubClient_def)
  show ?thesis
    using close_error_masks_original [OF d cl] d by simp
qed

end
